theory Spec2Isabelle
  imports Complex_Main "HOL-Library.AList"
begin

section \<open>The data model of \<open>MainWindow.tsx\<close>\<close>

text \<open>
  The editor keeps one value of type \<open>Data\<close> in React state:
  \<^verbatim>\<open>{ headers: string[], rows: { date: string, values: Record<string, number>, hidden?: boolean }[] }\<close>.

  A cell is a JavaScript number. The program never computes with cells, it only stores,
  copies and tests them, so a finite number is kept as the real it denotes (the two zeros
  are one value); the three non-finite numbers are constructors of their own.

  A property read can give two more kinds of value, and \<open>updateHeader\<close> can store them
  in a cell: \<open>undefined\<close>, for a name that neither the object nor its prototype has, and
  one of the objects a plain object inherits from \<open>Object.prototype\<close>. These are the
  type \<open>builtin\<close>: \<open>Object.prototype\<close> itself (what reading \<open>__proto__\<close> gives), the
  \<open>Object\<close> constructor (\<open>constructor\<close>), and the other ten functions.
\<close>

datatype builtin =
    ObjectPrototype
  | ObjectConstructor
  | Fn_defineGetter
  | Fn_defineSetter
  | Fn_hasOwnProperty
  | Fn_lookupGetter
  | Fn_lookupSetter
  | Fn_isPrototypeOf
  | Fn_propertyIsEnumerable
  | Fn_toString
  | Fn_valueOf
  | Fn_toLocaleString

datatype jsval = Num real | NaN | PosInf | NegInf | Undefined | Obj builtin

text \<open>The global \<open>isNaN\<close> converts its argument to a number first: \<open>undefined\<close>
  converts to \<open>NaN\<close>, and so does each of the objects above (through its \<open>toString\<close>).\<close>

fun isNaN :: "jsval \<Rightarrow> bool" where
  "isNaN NaN = True"
| "isNaN Undefined = True"
| "isNaN (Obj b) = True"
| "isNaN (Num x) = False"
| "isNaN PosInf = False"
| "isNaN NegInf = False"

text \<open>What a handler reports instead of committing a snapshot: the message box of
  \<open>updateHeader\<close>, the exceptions of the date library, of a property access on
  \<open>undefined\<close> and of an assignment that cannot be made, and the failures of loading
  and saving.\<close>

datatype error =
    DuplicateColumnName
  | RangeError
  | TypeError
  | MalformedJson
  | SchemaViolation "string list list"
  | ReadError
  | WriteError

text \<open>
  A \<open>values\<close> object is the list of its own properties in the order
  \<open>Object.entries\<close> gives them, together with its prototype. An object has every
  name once: \<open>distinct (map fst obj)\<close>. Object spread, \<open>Object.fromEntries\<close>,
  \<open>Object.entries\<close>, a computed key in an object literal, \<open>delete\<close> and
  \<open>JSON.stringify\<close> work on the own properties only: defining a property replaces the
  value in place when the name is there and appends it otherwise (\<open>AList.update\<close>),
  \<open>delete\<close> removes it (\<open>AList.delete\<close>), and the object they build has the
  prototype \<open>Object.prototype\<close>. (JavaScript lists names that are array indices, such
  as \<open>"7"\<close>, before all others; the model keeps them in insertion order too. No
  statement below depends on where such a name stands.)
\<close>

type_synonym obj = "(string \<times> jsval) list"

text \<open>What a plain object inherits under a name: the twelve properties of
  \<open>Object.prototype\<close>.\<close>

definition inherited :: "string \<Rightarrow> jsval" where
  "inherited k =
    (if k = ''__proto__'' then Obj ObjectPrototype
     else if k = ''constructor'' then Obj ObjectConstructor
     else if k = ''__defineGetter__'' then Obj Fn_defineGetter
     else if k = ''__defineSetter__'' then Obj Fn_defineSetter
     else if k = ''hasOwnProperty'' then Obj Fn_hasOwnProperty
     else if k = ''__lookupGetter__'' then Obj Fn_lookupGetter
     else if k = ''__lookupSetter__'' then Obj Fn_lookupSetter
     else if k = ''isPrototypeOf'' then Obj Fn_isPrototypeOf
     else if k = ''propertyIsEnumerable'' then Obj Fn_propertyIsEnumerable
     else if k = ''toString'' then Obj Fn_toString
     else if k = ''valueOf'' then Obj Fn_valueOf
     else if k = ''toLocaleString'' then Obj Fn_toLocaleString
     else Undefined)"

text \<open>The read \<open>ob[k]\<close> on an object whose prototype is \<open>Object.prototype\<close>: the own
  property, or else the inherited one.\<close>

definition get_prop :: "obj \<Rightarrow> string \<Rightarrow> jsval" where
  "get_prop ob k = (case map_of ob k of None \<Rightarrow> inherited k | Some v \<Rightarrow> v)"

text \<open>
  The assignment \<open>ob[k] = v\<close> on an object with own properties \<open>ob\<close> and prototype
  \<open>p\<close>, in strict code (the file is a module); the result is the own properties and the
  prototype afterwards. An own property is replaced. Otherwise the prototype chain decides:
  a property there that cannot be written makes the assignment throw (under a function as
  prototype, its own \<open>length\<close> and \<open>name\<close>, the \<open>prototype\<close> of the \<open>Object\<close>
  constructor, and the throwing accessors \<open>caller\<close> and \<open>arguments\<close> of
  \<open>Function.prototype\<close>); the name \<open>__proto__\<close> runs the setter of
  \<open>Object.prototype\<close>, which adds no own property and makes an object the new
  prototype, ignoring any other value; every other name is appended.
\<close>

definition blocked_names :: "builtin \<Rightarrow> string list" where
  "blocked_names p =
    (if p = ObjectPrototype then []
     else if p = ObjectConstructor then [''length'', ''name'', ''caller'', ''arguments'', ''prototype'']
     else [''length'', ''name'', ''caller'', ''arguments''])"

definition proto_setter :: "builtin \<Rightarrow> jsval \<Rightarrow> builtin" where
  "proto_setter p v = (case v of Obj b \<Rightarrow> b | _ \<Rightarrow> p)"

definition put_prop :: "obj \<Rightarrow> builtin \<Rightarrow> string \<Rightarrow> jsval \<Rightarrow> error + obj \<times> builtin" where
  "put_prop ob p k v =
    (if k \<in> set (map fst ob) then Inr (AList.update k v ob, p)
     else if k \<in> set (blocked_names p) then Inl TypeError
     else if k = ''__proto__'' then Inr (ob, proto_setter p v)
     else Inr (AList.update k v ob, p))"

text \<open>The same assignment on a fresh plain object, where nothing is blocked.\<close>

definition set_plain :: "obj \<Rightarrow> string \<Rightarrow> jsval \<Rightarrow> obj \<times> builtin" where
  "set_plain ob k v =
    (if k \<in> set (map fst ob) then (AList.update k v ob, ObjectPrototype)
     else if k = ''__proto__'' then (ob, proto_setter ObjectPrototype v)
     else (AList.update k v ob, ObjectPrototype))"

definition fromEntries :: "(string \<times> jsval) list \<Rightarrow> obj" where
  "fromEntries es = foldl (\<lambda>ob (k, v). AList.update k v ob) [] es"

text \<open>A row: \<open>values'\<close> holds the own properties of its \<open>values\<close> object and
  \<open>values_proto\<close> that object's prototype.\<close>

record row =
  date :: string
  values' :: obj
  values_proto :: builtin
  hidden :: "bool option"

record data =
  headers :: "string list"
  rows :: "row list"

section \<open>The date library\<close>

text \<open>
  A \<open>Date\<close> holds a time value: milliseconds since 1970-01-01T00:00Z, or \<open>NaN\<close>
  (an invalid date, \<open>None\<close> here). The functions below follow the abstract
  operations of ECMAScript (\<open>Day\<close>, \<open>TimeWithinDay\<close>, \<open>LocalTime\<close>,
  \<open>UTC\<close>, \<open>MakeDay\<close>, \<open>MakeDate\<close>) and the \<open>Date\<close> methods that
  date-fns calls. The local time zone is a parameter \<open>tz\<close>: its offset from UTC in
  minutes, east positive, taken as constant over the dates involved.
\<close>

definition msPerDay :: int where
  "msPerDay = 86400000"

definition msPerMinute :: int where
  "msPerMinute = 60000"

definition is_leap :: "int \<Rightarrow> bool" where
  "is_leap y = (y mod 4 = 0 \<and> (y mod 100 \<noteq> 0 \<or> y mod 400 = 0))"

definition days_in_month :: "int \<Rightarrow> int \<Rightarrow> int" where
  "days_in_month y m =
    (if m = 2 then (if is_leap y then 29 else 28)
     else if m = 4 \<or> m = 6 \<or> m = 9 \<or> m = 11 then 30 else 31)"

text \<open>Day number of a proleptic Gregorian date (month \<open>1..12\<close>), and back.\<close>

definition days_from_civil :: "int \<Rightarrow> int \<Rightarrow> int \<Rightarrow> int" where
  "days_from_civil y m d =
    (let y' = (if m \<le> 2 then y - 1 else y);
         era = y' div 400;
         yoe = y' - era * 400;
         mp = (m + 9) mod 12;
         doy = (153 * mp + 2) div 5 + d - 1;
         doe = yoe * 365 + yoe div 4 - yoe div 100 + doy
     in era * 146097 + doe - 719468)"

definition civil_from_days :: "int \<Rightarrow> int \<times> int \<times> int" where
  "civil_from_days z0 =
    (let z = z0 + 719468;
         era = z div 146097;
         doe = z - era * 146097;
         yoe = (doe - doe div 1460 + doe div 36524 - doe div 146096) div 365;
         y = yoe + era * 400;
         doy = doe - (365 * yoe + yoe div 4 - yoe div 100);
         mp = (5 * doy + 2) div 153;
         d = doy - (153 * mp + 2) div 5 + 1;
         m = (if mp < 10 then mp + 3 else mp - 9)
     in (if m \<le> 2 then y + 1 else y, m, d))"

definition Day :: "int \<Rightarrow> int" where
  "Day t = t div msPerDay"

definition TimeWithinDay :: "int \<Rightarrow> int" where
  "TimeWithinDay t = t mod msPerDay"

definition LocalTime :: "int \<Rightarrow> int \<Rightarrow> int" where
  "LocalTime tz t = t + tz * msPerMinute"

definition UTC :: "int \<Rightarrow> int \<Rightarrow> int" where
  "UTC tz t = t - tz * msPerMinute"

text \<open>\<open>MakeDay year month date\<close> with a month index counted from 0 that may lie outside
  \<open>0..11\<close>, and a day of the month that may lie outside the month.\<close>

definition MakeDay :: "int \<Rightarrow> int \<Rightarrow> int \<Rightarrow> int" where
  "MakeDay year month dt =
    (let ym = year + month div 12; mn = month mod 12
     in days_from_civil ym (mn + 1) 1 + dt - 1)"

definition MakeDate :: "int \<Rightarrow> int \<Rightarrow> int" where
  "MakeDate day time = day * msPerDay + time"

definition getFullYear :: "int \<Rightarrow> int \<Rightarrow> int" where
  "getFullYear tz t = fst (civil_from_days (Day (LocalTime tz t)))"

definition getMonth :: "int \<Rightarrow> int \<Rightarrow> int" where
  "getMonth tz t = fst (snd (civil_from_days (Day (LocalTime tz t)))) - 1"

definition getDate :: "int \<Rightarrow> int \<Rightarrow> int" where
  "getDate tz t = snd (snd (civil_from_days (Day (LocalTime tz t))))"

definition setMonth :: "int \<Rightarrow> int \<Rightarrow> int \<Rightarrow> int \<Rightarrow> int" where
  "setMonth tz t month dt =
    (let lt = LocalTime tz t
     in UTC tz (MakeDate (MakeDay (fst (civil_from_days (Day lt))) month dt) (TimeWithinDay lt)))"

definition setFullYear :: "int \<Rightarrow> int \<Rightarrow> int \<Rightarrow> int \<Rightarrow> int \<Rightarrow> int" where
  "setFullYear tz t year month dt =
    (let lt = LocalTime tz t
     in UTC tz (MakeDate (MakeDay year month dt) (TimeWithinDay lt)))"

text \<open>
  \<open>new Date(s)\<close> for a date-only ISO string \<open>yyyy-MM-dd\<close>, the form the program
  writes and the file format documents: midnight UTC of that day. Every other string is
  taken as an invalid date (engines accept more forms, and differ on a day beyond the
  month's end; the statements below are about well-formed dates only).
\<close>

definition digit_of :: "char \<Rightarrow> nat option" where
  "digit_of c = (let n = (of_char c :: nat) in if 48 \<le> n \<and> n \<le> 57 then Some (n - 48) else None)"

fun digits_val :: "nat \<Rightarrow> string \<Rightarrow> nat option" where
  "digits_val acc [] = Some acc"
| "digits_val acc (c # cs) =
     (case digit_of c of None \<Rightarrow> None | Some d \<Rightarrow> digits_val (10 * acc + d) cs)"

definition newDate :: "string \<Rightarrow> int option" where
  "newDate s =
    (if length s = 10 \<and> s ! 4 = CHR ''-'' \<and> s ! 7 = CHR ''-'' then
       (case (digits_val 0 (take 4 s), digits_val 0 (take 2 (drop 5 s)), digits_val 0 (drop 8 s)) of
          (Some y, Some m, Some d) \<Rightarrow>
            if 1 \<le> m \<and> m \<le> 12 \<and> 1 \<le> d \<and> int d \<le> days_in_month (int y) (int m)
            then Some (MakeDate (MakeDay (int y) (int m - 1) (int d)) 0)
            else None
        | _ \<Rightarrow> None)
     else None)"

text \<open>date-fns \<open>addMonths\<close>: the last day of the target month is found with
  \<open>setMonth(month + amount + 1, 0)\<close>; the day of the month is kept unless the target
  month is shorter. \<open>subMonths(d, n)\<close> is \<open>addMonths(d, -n)\<close>. All getters and setters
  are the local-time ones.\<close>

definition addMonths :: "int \<Rightarrow> int option \<Rightarrow> int \<Rightarrow> int option" where
  "addMonths tz dt amount =
    (case dt of
       None \<Rightarrow> None
     | Some t \<Rightarrow>
         if amount = 0 then Some t
         else
           (let dayOfMonth = getDate tz t;
                endOfDesiredMonth = setMonth tz t (getMonth tz t + amount + 1) 0;
                daysInMonth = getDate tz endOfDesiredMonth
            in if dayOfMonth \<ge> daysInMonth then Some endOfDesiredMonth
               else Some (setFullYear tz t (getFullYear tz endOfDesiredMonth)
                            (getMonth tz endOfDesiredMonth) dayOfMonth)))"

definition subMonths :: "int \<Rightarrow> int option \<Rightarrow> int \<Rightarrow> int option" where
  "subMonths tz dt amount = addMonths tz dt (- amount)"

text \<open>Decimal digits of a natural number, and \<open>addLeadingZeros\<close> of date-fns.\<close>

definition digit_char :: "nat \<Rightarrow> char" where
  "digit_char n = ''0123456789'' ! n"

fun string_of_nat :: "nat \<Rightarrow> string" where
  "string_of_nat n =
    (if n < 10 then [digit_char n] else string_of_nat (n div 10) @ [digit_char (n mod 10)])"

declare string_of_nat.simps [simp del]

definition addLeadingZeros :: "nat \<Rightarrow> nat \<Rightarrow> string" where
  "addLeadingZeros n targetLength =
    (let s = string_of_nat n in replicate (targetLength - length s) (CHR ''0'') @ s)"

text \<open>\<open>format(d, "yyyy-MM-dd")\<close>: throws \<open>RangeError\<close> on an invalid date; the fields
  are the local ones; a year before 1 is printed as \<open>1 - year\<close>.\<close>

definition format_yyyy_MM_dd :: "int \<Rightarrow> int option \<Rightarrow> error + string" where
  "format_yyyy_MM_dd tz dt =
    (case dt of
       None \<Rightarrow> Inl RangeError
     | Some t \<Rightarrow>
         (let signedYear = getFullYear tz t;
              year = (if signedYear > 0 then signedYear else 1 - signedYear)
          in Inr (addLeadingZeros (nat year) 4 @ ''-'' @
                  addLeadingZeros (nat (getMonth tz t + 1)) 2 @ ''-'' @
                  addLeadingZeros (nat (getDate tz t)) 2)))"

text \<open>
  What the two library functions do to the local calendar day, without the time of day:
  \<open>addMonths_local\<close> maps the local day number of a date to the local day number of
  \<open>addMonths\<close> of it, and \<open>format_day\<close> prints a local day number. The lemmas
  \<open>addMonths_Some\<close> and \<open>format_Some\<close> below relate them to the functions above.
\<close>

definition addMonths_local :: "int \<Rightarrow> int \<Rightarrow> int" where
  "addMonths_local L amount =
    (let c = civil_from_days L;
         dayOfMonth = snd (snd c);
         endDay = MakeDay (fst c) (fst (snd c) - 1 + amount + 1) 0;
         e = civil_from_days endDay;
         daysInMonth = snd (snd e)
     in if dayOfMonth \<ge> daysInMonth then endDay
        else MakeDay (fst e) (fst (snd e) - 1) dayOfMonth)"

definition format_day :: "int \<Rightarrow> string" where
  "format_day L =
    (let c = civil_from_days L;
         year = (if fst c > 0 then fst c else 1 - fst c)
     in addLeadingZeros (nat year) 4 @ ''-'' @
        addLeadingZeros (nat (fst (snd c))) 2 @ ''-'' @
        addLeadingZeros (nat (snd (snd c))) 2)"

section \<open>The handlers that build a new snapshot\<close>

text \<open>
  Each handler reads the current snapshot \<open>d\<close> and either calls \<open>setData\<close> with a
  snapshot built from fresh objects (\<open>Inr\<close>) or reports an error and leaves the state
  as it is (\<open>Inl\<close>). \<open>commit\<close> is the state after the handler has run.
\<close>

definition commit :: "data \<Rightarrow> error + data \<Rightarrow> data" where
  "commit d r = (case r of Inl e \<Rightarrow> d | Inr d' \<Rightarrow> d')"

definition addRow :: "int \<Rightarrow> data \<Rightarrow> error + data" where
  "addRow tz d =
    (if length (rows d) = 0 then
       (let today = newDate ''2027-10-14''
        in case format_yyyy_MM_dd tz today of
             Inl e \<Rightarrow> Inl e
           | Inr s \<Rightarrow>
               Inr (d\<lparr>rows :=
                      [\<lparr>date = s,
                        values' = fromEntries (map (\<lambda>header. (header, Num 1)) (headers d)),
                        values_proto = ObjectPrototype,
                        hidden = Some False\<rparr>]\<rparr>))
     else
       (let lastRowDate = newDate (date (rows d ! (length (rows d) - 1)));
            nd = addMonths tz lastRowDate 3;
            lastRowValues = values' (rows d ! (length (rows d) - 1))
        in case format_yyyy_MM_dd tz nd of
             Inl e \<Rightarrow> Inl e
           | Inr s \<Rightarrow>
               Inr (d\<lparr>rows := rows d @
                      [\<lparr>date = s, values' = lastRowValues, values_proto = ObjectPrototype,
                        hidden = Some True\<rparr>]\<rparr>)))"



text \<open>In \<open>updateHeader\<close> the object \<open>newValues\<close> is the spread copy
  \<open>{ ...row.values }\<close>, a plain object with the own properties of the row's: the read
  and the assignment are \<open>get_prop\<close> and \<open>set_plain\<close> on it, then the old name is
  deleted.\<close>

definition updateHeader :: "string \<Rightarrow> string \<Rightarrow> data \<Rightarrow> error + data" where
  "updateHeader oldHeader newHeader d =
    (if newHeader \<in> set (headers d) \<and> newHeader \<noteq> oldHeader then Inl DuplicateColumnName
     else Inr
       \<lparr>headers = map (\<lambda>header. if header = oldHeader then newHeader else header) (headers d),
        rows = map (\<lambda>r.
                 let newValues = set_plain (values' r) newHeader (get_prop (values' r) oldHeader)
                 in r\<lparr>values' := AList.delete oldHeader (fst newValues),
                      values_proto := snd newValues\<rparr>) (rows d)\<rparr>)"

text \<open>\<open>removeRow\<close> keeps the rows whose index differs from \<open>rowIndex\<close>; the index is
  any integer.\<close>

definition removeRow :: "int \<Rightarrow> data \<Rightarrow> data" where
  "removeRow rowIndex d =
    d\<lparr>rows := map snd (filter (\<lambda>(index, r). int index \<noteq> rowIndex) (enumerate 0 (rows d)))\<rparr>"

definition prepareData :: "data \<Rightarrow> data" where
  "prepareData d =
    d\<lparr>rows := map (\<lambda>r. r\<lparr>values' :=
             fromEntries (map (\<lambda>(key, v). (key, if isNaN v then Num 0 else v)) (values' r)),
             values_proto := ObjectPrototype\<rparr>)
           (rows d)\<rparr>"

definition applyLoadedData :: "data \<Rightarrow> data" where
  "applyLoadedData loadedData =
    loadedData\<lparr>rows := map (\<lambda>r. r\<lparr>hidden := Some (case hidden r of None \<Rightarrow> False | Some b \<Rightarrow> b)\<rparr>)
                    (rows loadedData)\<rparr>"

text \<open>Every \<open>values\<close> object of the dataset has each name once, as every JavaScript
  object has.\<close>

definition wf_data :: "data \<Rightarrow> bool" where
  "wf_data d = list_all (\<lambda>r. distinct (map fst (values' r))) (rows d)"

text \<open>\<open>prepareForPersistence\<close> in the words of the specification: every value that is
  not a finite number is replaced with 0.\<close>

fun is_finite :: "jsval \<Rightarrow> bool" where
  "is_finite (Num x) = True"
| "is_finite NaN = False"
| "is_finite PosInf = False"
| "is_finite NegInf = False"
| "is_finite Undefined = False"
| "is_finite (Obj b) = False"

definition prepareForPersistence_spec :: "data \<Rightarrow> data" where
  "prepareForPersistence_spec d =
    d\<lparr>rows := map (\<lambda>r. r\<lparr>values' :=
             map (\<lambda>(key, v). (key, if is_finite v then v else Num 0)) (values' r)\<rparr>) (rows d)\<rparr>"

section \<open>Sequences of column operations\<close>

text \<open>Invariant 2 of the data model: in every row the names of \<open>values\<close> are exactly
  the headers, as sets.\<close>

definition inv2 :: "data \<Rightarrow> bool" where
  "inv2 d = list_all (\<lambda>r. set (map fst (values' r)) = set (headers d)) (rows d)"






section \<open>The handlers that change a row in place\<close>

text \<open>
  \<open>incrementMonth\<close>, \<open>decrementMonth\<close>, \<open>updateValue\<close> and
  \<open>toggleRowVisibility\<close> copy the array \<open>data.rows\<close> (\<open>[...data.rows]\<close>) and then
  assign to a property of the row object found in the copy. The copy holds the same row
  objects as the current snapshot, so these handlers are modelled over a store: a snapshot
  is its headers and an array of references to row objects, a row object refers to its
  \<open>values\<close> object (own properties and prototype, by address), and \<open>view\<close> reads
  the dataset a snapshot denotes in a store.
\<close>

record row_obj =
  date_f :: string
  values_ref :: nat
  hidden_f :: "bool option"

record store =
  row_objs :: "nat \<Rightarrow> row_obj"
  values_objs :: "nat \<Rightarrow> obj"
  values_protos :: "nat \<Rightarrow> builtin"

record snapshot =
  headers_s :: "string list"
  rows_s :: "nat list"

definition view_row :: "store \<Rightarrow> nat \<Rightarrow> row" where
  "view_row st a =
    \<lparr>date = date_f (row_objs st a),
     values' = values_objs st (values_ref (row_objs st a)),
     values_proto = values_protos st (values_ref (row_objs st a)),
     hidden = hidden_f (row_objs st a)\<rparr>"

definition view :: "store \<Rightarrow> snapshot \<Rightarrow> data" where
  "view st s = \<lparr>headers = headers_s s, rows = map (view_row st) (rows_s s)\<rparr>"

text \<open>\<open>rows[rowIndex]\<close>: \<open>undefined\<close> outside the array, and then the property access
  on it throws \<open>TypeError\<close>.\<close>

definition row_at :: "nat list \<Rightarrow> int \<Rightarrow> nat option" where
  "row_at rs rowIndex =
    (if 0 \<le> rowIndex \<and> rowIndex < int (length rs) then Some (rs ! nat rowIndex) else None)"

definition set_date :: "store \<Rightarrow> nat \<Rightarrow> string \<Rightarrow> store" where
  "set_date st a s = st\<lparr>row_objs := (row_objs st)(a := (row_objs st a)\<lparr>date_f := s\<rparr>)\<rparr>"

definition incrementMonth :: "int \<Rightarrow> int \<Rightarrow> store \<Rightarrow> snapshot \<Rightarrow> error + store \<times> snapshot" where
  "incrementMonth tz rowIndex st s =
    (case row_at (rows_s s) rowIndex of
       None \<Rightarrow> Inl TypeError
     | Some a \<Rightarrow>
         (let currentDate = newDate (date_f (row_objs st a));
              nd = addMonths tz currentDate 1;
              newRows = rows_s s
          in case format_yyyy_MM_dd tz nd of
               Inl e \<Rightarrow> Inl e
             | Inr str \<Rightarrow> Inr (set_date st a str, s\<lparr>rows_s := newRows\<rparr>)))"

definition decrementMonth :: "int \<Rightarrow> int \<Rightarrow> store \<Rightarrow> snapshot \<Rightarrow> error + store \<times> snapshot" where
  "decrementMonth tz rowIndex st s =
    (case row_at (rows_s s) rowIndex of
       None \<Rightarrow> Inl TypeError
     | Some a \<Rightarrow>
         (let currentDate = newDate (date_f (row_objs st a));
              nd = subMonths tz currentDate 1;
              newRows = rows_s s
          in case format_yyyy_MM_dd tz nd of
               Inl e \<Rightarrow> Inl e
             | Inr str \<Rightarrow> Inr (set_date st a str, s\<lparr>rows_s := newRows\<rparr>)))"

text \<open>\<open>parseFloat\<close> is the language's; the handler is modelled for any such function.
  The assignment is made in the \<open>values\<close> object the row holds, whatever its prototype
  (\<open>put_prop\<close>).\<close>

definition updateValue ::
  "(string \<Rightarrow> jsval) \<Rightarrow> int \<Rightarrow> string \<Rightarrow> string \<Rightarrow> store \<Rightarrow> snapshot \<Rightarrow> error + store \<times> snapshot" where
  "updateValue parseFloat rowIndex header v st s =
    (let numValue = parseFloat v; newRows = rows_s s
     in case row_at newRows rowIndex of
          None \<Rightarrow> Inl TypeError
        | Some a \<Rightarrow>
            (let vr = values_ref (row_objs st a)
             in case put_prop (values_objs st vr) (values_protos st vr) header numValue of
                  Inl e \<Rightarrow> Inl e
                | Inr (ob, p) \<Rightarrow>
                    Inr (st\<lparr>values_objs := (values_objs st)(vr := ob),
                            values_protos := (values_protos st)(vr := p)\<rparr>,
                         s\<lparr>rows_s := newRows\<rparr>)))"

definition toggleRowVisibility :: "int \<Rightarrow> store \<Rightarrow> snapshot \<Rightarrow> error + store \<times> snapshot" where
  "toggleRowVisibility rowIndex st s =
    (let newRows = rows_s s
     in case row_at newRows rowIndex of
          None \<Rightarrow> Inl TypeError
        | Some a \<Rightarrow>
            Inr (st\<lparr>row_objs := (row_objs st)(a := (row_objs st a)
                       \<lparr>hidden_f := Some (\<not> (case hidden_f (row_objs st a) of None \<Rightarrow> False | Some b \<Rightarrow> b))\<rparr>)\<rparr>,
                 s\<lparr>rows_s := newRows\<rparr>))"

section \<open>Saving and loading\<close>

text \<open>
  \<open>JSON.stringify\<close> writes a value as text and \<open>JSON.parse\<close> reads text back as
  a value. Both are the language's; they are modelled by the value that the text denotes:
  a file holds either the text of a JSON value or text that does not parse. In the written
  value a number that is \<open>NaN\<close> or infinite is \<open>null\<close>, a property whose value
  is \<open>undefined\<close> or a function is left out, and \<open>Object.prototype\<close>, which has no
  enumerable property, is \<open>{}\<close>. Only own properties are written; the objects that
  parsing builds are plain.
\<close>

datatype json = JNull | JBool bool | JNum real | JStr string | JArr "json list" | JObj "(string \<times> json) list"

fun cell_json :: "jsval \<Rightarrow> json option" where
  "cell_json (Num x) = Some (JNum x)"
| "cell_json NaN = Some JNull"
| "cell_json PosInf = Some JNull"
| "cell_json NegInf = Some JNull"
| "cell_json Undefined = None"
| "cell_json (Obj b) = (if b = ObjectPrototype then Some (JObj []) else None)"

definition values_json :: "obj \<Rightarrow> json" where
  "values_json vs = JObj (List.map_filter (\<lambda>(k, v). map_option (Pair k) (cell_json v)) vs)"

definition row_json :: "row \<Rightarrow> json" where
  "row_json r =
    JObj ([(''date'', JStr (date r)), (''values'', values_json (values' r))] @
          (case hidden r of None \<Rightarrow> [] | Some b \<Rightarrow> [(''hidden'', JBool b)]))"

definition data_json :: "data \<Rightarrow> json" where
  "data_json d =
    JObj [(''headers'', JArr (map JStr (headers d))), (''rows'', JArr (map row_json (rows d)))]"

datatype file_text = JsonText json | OtherText

definition JSON_stringify :: "data \<Rightarrow> file_text" where
  "JSON_stringify d = JsonText (data_json d)"

definition JSON_parse :: "file_text \<Rightarrow> json option" where
  "JSON_parse t = (case t of JsonText j \<Rightarrow> Some j | OtherText \<Rightarrow> None)"

text \<open>
  Modelled from the spec: \<open>dataSchema\<close> (the module \<open>./dataSchema\<close> is not among the
  sources). Section 4.1: \<open>headers\<close> is a sequence of strings; \<open>rows\<close> is a sequence
  of objects, each with a parseable date string, a \<open>values\<close> object mapping strings to
  numbers, and an optional boolean \<open>hidden\<close>; every violation is reported with its
  path. \<open>safeParse\<close> gives the typed dataset when there is no violation.
\<close>

definition headers_issues :: "json \<Rightarrow> string list list" where
  "headers_issues j =
    (case j of
       JArr xs \<Rightarrow>
         concat (map (\<lambda>(i, x). case x of JStr s \<Rightarrow> [] | _ \<Rightarrow> [[''headers'', string_of_nat i]])
                   (enumerate 0 xs))
     | _ \<Rightarrow> [[''headers'']])"

definition values_issues :: "string list \<Rightarrow> json option \<Rightarrow> string list list" where
  "values_issues path j =
    (case j of
       Some (JObj kvs) \<Rightarrow> concat (map (\<lambda>(k, v). case v of JNum x \<Rightarrow> [] | _ \<Rightarrow> [path @ [k]]) kvs)
     | _ \<Rightarrow> [path])"

definition row_issues :: "string list \<Rightarrow> json \<Rightarrow> string list list" where
  "row_issues path j =
    (case j of
       JObj fs \<Rightarrow>
         (case map_of fs ''date'' of
            Some (JStr s) \<Rightarrow> (if newDate s = None then [path @ [''date'']] else [])
          | _ \<Rightarrow> [path @ [''date'']]) @
         values_issues (path @ [''values'']) (map_of fs ''values'') @
         (case map_of fs ''hidden'' of
            None \<Rightarrow> []
          | Some (JBool b) \<Rightarrow> []
          | Some _ \<Rightarrow> [path @ [''hidden'']])
     | _ \<Rightarrow> [path])"

definition data_issues :: "json \<Rightarrow> string list list" where
  "data_issues j =
    (case j of
       JObj fs \<Rightarrow>
         (case map_of fs ''headers'' of Some h \<Rightarrow> headers_issues h | None \<Rightarrow> [[''headers'']]) @
         (case map_of fs ''rows'' of
            Some (JArr rs) \<Rightarrow>
              concat (map (\<lambda>(i, r). row_issues [''rows'', string_of_nat i] r) (enumerate 0 rs))
          | _ \<Rightarrow> [[''rows'']])
     | _ \<Rightarrow> [[]])"

definition to_values :: "json \<Rightarrow> obj" where
  "to_values j =
    (case j of
       JObj kvs \<Rightarrow> map (\<lambda>(k, v). (k, case v of JNum x \<Rightarrow> Num x | _ \<Rightarrow> Undefined)) kvs
     | _ \<Rightarrow> [])"

definition to_row :: "json \<Rightarrow> row" where
  "to_row j =
    (case j of
       JObj fs \<Rightarrow>
         \<lparr>date = (case map_of fs ''date'' of Some (JStr s) \<Rightarrow> s | _ \<Rightarrow> []),
          values' = (case map_of fs ''values'' of Some v \<Rightarrow> to_values v | None \<Rightarrow> []),
          values_proto = ObjectPrototype,
          hidden = (case map_of fs ''hidden'' of Some (JBool b) \<Rightarrow> Some b | _ \<Rightarrow> None)\<rparr>
     | _ \<Rightarrow> \<lparr>date = [], values' = [], values_proto = ObjectPrototype, hidden = None\<rparr>)"

definition to_data :: "json \<Rightarrow> data" where
  "to_data j =
    (case j of
       JObj fs \<Rightarrow>
         \<lparr>headers = (case map_of fs ''headers'' of
                       Some (JArr xs) \<Rightarrow> map (\<lambda>x. case x of JStr s \<Rightarrow> s | _ \<Rightarrow> []) xs
                     | _ \<Rightarrow> []),
          rows = (case map_of fs ''rows'' of Some (JArr rs) \<Rightarrow> map to_row rs | _ \<Rightarrow> [])\<rparr>
     | _ \<Rightarrow> \<lparr>headers = [], rows = []\<rparr>)"

definition safeParse :: "json \<Rightarrow> string list list + data" where
  "safeParse rawData =
    (if data_issues rawData = [] then Inr (to_data rawData) else Inl (data_issues rawData))"

text \<open>\<open>parseData\<close>, the two file operations of the Tauri plugin (a write fails where
  the path is not writable, a read where there is no file), and the two handlers. The
  argument \<open>chosen\<close> / \<open>selected\<close> is what the file dialog returned; the handlers
  test it for truth, so the empty string counts as no choice. \<open>Inr\<close> of
  \<open>loadDataFromFile\<close> is the dataset the editor holds afterwards.\<close>

definition parseData :: "file_text \<Rightarrow> error + data" where
  "parseData fileContent =
    (case JSON_parse fileContent of
       None \<Rightarrow> Inl MalformedJson
     | Some rawData \<Rightarrow>
         (case safeParse rawData of
            Inl issues \<Rightarrow> Inl (SchemaViolation issues)
          | Inr validated \<Rightarrow> Inr validated))"

record filesystem =
  files :: "string \<Rightarrow> file_text option"
  writable :: "string \<Rightarrow> bool"

definition writeTextFile :: "string \<Rightarrow> file_text \<Rightarrow> filesystem \<Rightarrow> error + filesystem" where
  "writeTextFile p t fs =
    (if writable fs p then Inr (fs\<lparr>files := (files fs)(p \<mapsto> t)\<rparr>) else Inl WriteError)"

definition readTextFile :: "string \<Rightarrow> filesystem \<Rightarrow> error + file_text" where
  "readTextFile p fs = (case files fs p of None \<Rightarrow> Inl ReadError | Some t \<Rightarrow> Inr t)"

definition saveDataToFile :: "string option \<Rightarrow> data \<Rightarrow> filesystem \<Rightarrow> error + filesystem" where
  "saveDataToFile chosen d fs =
    (let dataToSave = prepareData d
     in case chosen of
          None \<Rightarrow> Inr fs
        | Some filePath \<Rightarrow>
            if filePath = [] then Inr fs
            else writeTextFile filePath (JSON_stringify dataToSave) fs)"

definition loadDataFromFile :: "string option \<Rightarrow> filesystem \<Rightarrow> data \<Rightarrow> error + data" where
  "loadDataFromFile selected fs d =
    (case selected of
       None \<Rightarrow> Inr d
     | Some p \<Rightarrow>
         if p = [] then Inr d
         else
           (case readTextFile p fs of
              Inl e \<Rightarrow> Inl e
            | Inr fileContent \<Rightarrow>
                (case parseData fileContent of
                   Inl e \<Rightarrow> Inl e
                 | Inr validatedData \<Rightarrow> Inr (applyLoadedData validatedData))))"

text \<open>
  A valid dataset, after section 3 of the specification: the headers are distinct
  (invariant 1), every row has exactly the headers as names of its cells (invariant 2),
  the rows are in strictly ascending order of date (invariant 3), every date is a
  well-formed \<open>yyyy-MM-dd\<close> date, and every cell is a non-negative number or the
  \<open>NaN\<close> of an edit in progress.
\<close>

definition date_before :: "row \<Rightarrow> row \<Rightarrow> bool" where
  "date_before a b =
    (case (newDate (date a), newDate (date b)) of (Some x, Some y) \<Rightarrow> x < y | _ \<Rightarrow> False)"

fun live_cell :: "jsval \<Rightarrow> bool" where
  "live_cell (Num x) = (0 \<le> x)"
| "live_cell NaN = True"
| "live_cell PosInf = False"
| "live_cell NegInf = False"
| "live_cell Undefined = False"
| "live_cell (Obj b) = False"

definition valid_dataset :: "data \<Rightarrow> bool" where
  "valid_dataset d =
    (distinct (headers d) \<and> inv2 d \<and> wf_data d \<and> sorted_wrt date_before (rows d) \<and>
     list_all (\<lambda>r. newDate (date r) \<noteq> None \<and> list_all (\<lambda>(k, v). live_cell v) (values' r)) (rows d))"

section \<open>A small dataset for the instances below\<close>

definition sample_row :: row where
  "sample_row = \<lparr>date = ''2027-10-14'', values' = [(''A'', Num 1)], values_proto = ObjectPrototype, hidden = Some False\<rparr>"

definition sample :: data where
  "sample = \<lparr>headers = [''A''], rows = [sample_row]\<rparr>"

text \<open>Two columns, two rows, one cell left \<open>NaN\<close> by an edit in progress.\<close>

definition sample2 :: data where
  "sample2 =
    \<lparr>headers = [''A'', ''B''],
     rows = [\<lparr>date = ''2027-10-14'', values' = [(''A'', Num 1), (''B'', NaN)], values_proto = ObjectPrototype, hidden = None\<rparr>,
             \<lparr>date = ''2028-01-14'', values' = [(''A'', Num 2), (''B'', Num 3)], values_proto = ObjectPrototype, hidden = Some True\<rparr>]\<rparr>"

text \<open>One cell holding \<open>Infinity\<close>, as \<open>parseFloat("Infinity")\<close> or
  \<open>parseFloat("1e999")\<close> gives.\<close>

definition sample_inf :: data where
  "sample_inf =
    \<lparr>headers = [''A''],
     rows = [\<lparr>date = ''2027-10-14'', values' = [(''A'', PosInf)], values_proto = ObjectPrototype, hidden = Some False\<rparr>]\<rparr>"

text \<open>No rows yet.\<close>

definition sample_empty :: data where
  "sample_empty = \<lparr>headers = [''A'', ''B''], rows = []\<rparr>"

text \<open>A store in which every address holds the row of \<open>sample\<close>, and the snapshot
  whose only row is the object at address 0; the same with the row dated 2027-01-31.\<close>

definition sample_store :: store where
  "sample_store =
    \<lparr>row_objs = (\<lambda>a. \<lparr>date_f = ''2027-10-14'', values_ref = a, hidden_f = Some False\<rparr>),
     values_objs = (\<lambda>a. [(''A'', Num 1)]),
     values_protos = (\<lambda>a. ObjectPrototype)\<rparr>"

definition sample_snapshot :: snapshot where
  "sample_snapshot = \<lparr>headers_s = [''A''], rows_s = [0]\<rparr>"

definition jan_store :: store where
  "jan_store =
    \<lparr>row_objs = (\<lambda>a. \<lparr>date_f = ''2027-01-31'', values_ref = a, hidden_f = Some False\<rparr>),
     values_objs = (\<lambda>a. [(''A'', Num 1)]),
     values_protos = (\<lambda>a. ObjectPrototype)\<rparr>"

text \<open>A file system with no files, in which every path can be written.\<close>

definition sample_fs :: filesystem where
  "sample_fs = \<lparr>files = (\<lambda>p. None), writable = (\<lambda>p. True)\<rparr>"

section \<open>Theorems\<close>

subsection \<open>Objects\<close>



lemma put_prop_plain: "put_prop ob ObjectPrototype k v = Inr (set_plain ob k v)"
  by (simp add: put_prop_def set_plain_def blocked_names_def)

lemma update_fresh: "k \<notin> fst ` set al \<Longrightarrow> AList.update k v al = al @ [(k, v)]"
  by (induction al) auto

lemma fromEntries_snoc: "fromEntries (es @ [(k, v)]) = AList.update k v (fromEntries es)"
  by (simp add: fromEntries_def)

lemma fromEntries_distinct: "distinct (map fst es) \<Longrightarrow> fromEntries es = es"
proof (induction es rule: rev_induct)
  case Nil
  then show ?case by (simp add: fromEntries_def)
next
  case (snoc x xs)
  obtain k v where x: "x = (k, v)" by (cases x)
  from snoc.prems x have d: "distinct (map fst xs)" and nk: "k \<notin> fst ` set xs"
    by auto
  show ?case
    using snoc.IH [OF d] nk by (simp add: x fromEntries_snoc update_fresh)
qed

subsection \<open>\<open>removeRow\<close>\<close>

lemma removeRow_out_of_range_aux:
  "rowIndex < 0 \<or> int (length xs) + int n \<le> rowIndex \<Longrightarrow>
   map snd (filter (\<lambda>(index, r). int index \<noteq> rowIndex) (enumerate n xs)) = xs"
  by (induction xs arbitrary: n) auto

text \<open>
  Claim C10. For every dataset and every row index outside \<open>[0, number of rows)\<close>,
  \<open>removeRow\<close> gives the dataset unchanged, with the same headers and the same rows in
  the same order; the handler has no error path.
\<close>

theorem removeRow_out_of_range:
  "rowIndex < 0 \<or> int (length (rows d)) \<le> rowIndex \<Longrightarrow> removeRow rowIndex d = d"
  using removeRow_out_of_range_aux [of rowIndex "rows d" 0]
  by (simp add: removeRow_def)

theorem removeRow_out_of_range_witness:
  "(5 < (0::int) \<or> int (length (rows sample)) \<le> 5) \<and> removeRow 5 sample = sample"
  using removeRow_out_of_range [of 5 sample]
  by (simp add: sample_def)

subsection \<open>Renaming a column\<close>

text \<open>
  Claim C2. For every dataset and every pair of names where \<open>new\<close> is a header and
  differs from \<open>old\<close>, \<open>updateHeader old new\<close> reports the duplicate-name validation
  error and does not call \<open>setData\<close>: the state is the dataset it was.
\<close>

theorem updateHeader_duplicate:
  "new \<in> set (headers d) \<Longrightarrow> new \<noteq> old \<Longrightarrow>
   updateHeader old new d = Inl DuplicateColumnName \<and> commit d (updateHeader old new d) = d"
  by (simp add: updateHeader_def commit_def)

theorem updateHeader_duplicate_witness:
  "''B'' \<in> set (headers sample2) \<and> ''B'' \<noteq> ''A'' \<and>
   updateHeader ''A'' ''B'' sample2 = Inl DuplicateColumnName \<and>
   commit sample2 (updateHeader ''A'' ''B'' sample2) = sample2"
proof -
  have a: "''B'' \<in> set (headers sample2)"
    by (simp add: sample2_def)
  have b: "''B'' \<noteq> ''A''"
    by simp
  from updateHeader_duplicate [OF a b] a b show ?thesis
    by blast
qed

text \<open>
  Claim C3. Renaming a column to its own name should leave the dataset as it is. In the
  code the guard lets the call through, the header list is rebuilt unchanged, and in every
  row \<open>newValues[h] = newValues[h]\<close> is followed by \<open>delete newValues[h]\<close>: the
  column's cell is gone from every row. Evaluated on the sample dataset:
\<close>

theorem updateHeader_same_name_drops_cells:
  "updateHeader ''A'' ''A'' sample =
     Inr \<lparr>headers = [''A''], rows = [\<lparr>date = ''2027-10-14'', values' = [], values_proto = ObjectPrototype, hidden = Some False\<rparr>]\<rparr>
   \<and> commit sample (updateHeader ''A'' ''A'' sample) \<noteq> sample"
  by (simp add: updateHeader_def commit_def sample_def sample_row_def get_prop_def set_plain_def)

subsection \<open>Invariant 2 under column operations\<close>








subsection \<open>\<open>prepareData\<close>\<close>

lemma keys_prepare:
  "map fst (map (\<lambda>(key, v). (key, if isNaN v then Num 0 else v)) vs) = map fst vs"
  by (induction vs) auto

lemma fromEntries_prepare:
  assumes "distinct (map fst vs)"
  shows "fromEntries (map (\<lambda>(key, v). (key, if isNaN v then Num 0 else v)) vs)
         = map (\<lambda>(key, v). (key, if isNaN v then Num 0 else v)) vs"
proof (rule fromEntries_distinct)
  show "distinct (map fst (map (\<lambda>(key, v). (key, if isNaN v then Num 0 else v)) vs))"
    using assms by (simp only: keys_prepare)
qed

lemma prepareData_eq:
  assumes "wf_data d"
  shows "prepareData d =
     d\<lparr>rows := map (\<lambda>r. r\<lparr>values' := map (\<lambda>(key, v). (key, if isNaN v then Num 0 else v)) (values' r),
                            values_proto := ObjectPrototype\<rparr>) (rows d)\<rparr>"
proof -
  have "\<And>r. r \<in> set (rows d) \<Longrightarrow> distinct (map fst (values' r))"
    using assms by (simp add: wf_data_def list_all_iff)
  then show ?thesis
    by (simp add: prepareData_def fromEntries_prepare cong: map_cong)
qed

text \<open>
  Claim C5, as stated: every non-finite cell is replaced with 0. The test in the code is
  \<open>isNaN(value)\<close>, and \<open>isNaN(Infinity)\<close> is false: a cell holding \<open>Infinity\<close>
  is kept, so the result differs from what the specification's wording gives.
\<close>

theorem prepareData_keeps_infinity_counterexample:
  "prepareData sample_inf = sample_inf \<and> prepareData sample_inf \<noteq> prepareForPersistence_spec sample_inf"
  by (simp add: prepareData_def prepareForPersistence_spec_def sample_inf_def fromEntries_def)

text \<open>
  Claim C5, amended: \<open>prepareData\<close> gives a dataset with the same headers and as many
  rows; each row keeps its date, its hidden flag and the names of its cells in their order;
  a cell for which \<open>isNaN\<close> holds becomes 0 and every other cell, finite or infinite, is
  the value it was. (The function assigns to no property of its input: the result is
  built with object spread, \<open>map\<close> and \<open>Object.fromEntries\<close>.)
\<close>

theorem prepareData_cells:
  "wf_data d \<Longrightarrow>
   headers (prepareData d) = headers d \<and>
   length (rows (prepareData d)) = length (rows d) \<and>
   (\<forall>i < length (rows d).
      date (rows (prepareData d) ! i) = date (rows d ! i) \<and>
      hidden (rows (prepareData d) ! i) = hidden (rows d ! i) \<and>
      map fst (values' (rows (prepareData d) ! i)) = map fst (values' (rows d ! i)) \<and>
      (\<forall>j < length (values' (rows d ! i)).
         snd (values' (rows (prepareData d) ! i) ! j) =
           (if isNaN (snd (values' (rows d ! i) ! j)) then Num 0 else snd (values' (rows d ! i) ! j))))"
  by (simp add: prepareData_eq case_prod_beta comp_def)

theorem prepareData_cells_witness:
  "wf_data sample2 \<and>
   headers (prepareData sample2) = headers sample2 \<and>
   date (rows (prepareData sample2) ! 0) = date (rows sample2 ! 0) \<and>
   hidden (rows (prepareData sample2) ! 0) = hidden (rows sample2 ! 0) \<and>
   snd (values' (rows (prepareData sample2) ! 0) ! 0) = Num 1 \<and>
   snd (values' (rows (prepareData sample2) ! 0) ! 1) = Num 0"
proof -
  have w: "wf_data sample2"
    by (simp add: wf_data_def sample2_def)
  from prepareData_cells [OF w] w show ?thesis
    by (simp add: sample2_def)
qed

subsection \<open>Dates\<close>

lemma LocalTime_UTC: "LocalTime tz (UTC tz x) = x"
  by (simp add: LocalTime_def UTC_def)

lemma TimeWithinDay_bounds: "0 \<le> TimeWithinDay t" "TimeWithinDay t < msPerDay"
  by (simp_all add: TimeWithinDay_def msPerDay_def)

lemma Day_MakeDate: "0 \<le> tod \<Longrightarrow> tod < msPerDay \<Longrightarrow> Day (MakeDate d tod) = d"
  by (simp add: Day_def MakeDate_def msPerDay_def)

lemma Day_setMonth:
  "Day (LocalTime tz (setMonth tz t month dt)) = MakeDay (fst (civil_from_days (Day (LocalTime tz t)))) month dt"
  by (simp add: setMonth_def Let_def LocalTime_UTC Day_MakeDate TimeWithinDay_bounds)

lemma Day_setFullYear:
  "Day (LocalTime tz (setFullYear tz t year month dt)) = MakeDay year month dt"
  by (simp add: setFullYear_def Let_def LocalTime_UTC Day_MakeDate TimeWithinDay_bounds)

lemma addMonths_Some:
  "amount \<noteq> 0 \<Longrightarrow>
   \<exists>t'. addMonths tz (Some t) amount = Some t' \<and>
        Day (LocalTime tz t') = addMonths_local (Day (LocalTime tz t)) amount"
  by (simp add: addMonths_def addMonths_local_def Let_def getDate_def getMonth_def getFullYear_def
      Day_setMonth Day_setFullYear)

lemma format_Some: "format_yyyy_MM_dd tz (Some t) = Inr (format_day (Day (LocalTime tz t)))"
  by (simp add: format_yyyy_MM_dd_def format_day_def Let_def getDate_def getMonth_def getFullYear_def)

lemma format_addMonths:
  "amount \<noteq> 0 \<Longrightarrow>
   format_yyyy_MM_dd tz (addMonths tz (Some t) amount)
     = Inr (format_day (addMonths_local (Day (LocalTime tz t)) amount))"
  using addMonths_Some [of amount tz t] by (auto simp: format_Some)

text \<open>The local day of midnight UTC of day \<open>D\<close>: the day before in a zone behind UTC.\<close>

lemma Day_LocalTime_midnight:
  "Day (LocalTime tz (MakeDate D 0)) = D + tz div 1440"
proof -
  define q where "q = tz div 1440"
  define r where "r = tz mod 1440"
  have tz: "tz = q * 1440 + r" and r: "0 \<le> r" "r < 1440"
    by (simp_all add: q_def r_def)
  have e: "D * 86400000 + tz * 60000 = 86400000 * (D + q) + r * 60000"
    by (simp add: tz algebra_simps)
  have b: "0 \<le> r * 60000" "r * 60000 < 86400000"
    using r by simp_all
  have "(86400000 * (D + q) + r * 60000) div 86400000 = D + q"
    using b by (rule_tac int_div_pos_eq [where r = "r * 60000"]) simp_all
  with e show ?thesis
    by (simp add: Day_def LocalTime_def MakeDate_def msPerDay_def msPerMinute_def q_def)
qed

lemma offset_day:
  fixes tz :: int
  assumes "- 1440 < tz" "tz < 1440"
  shows "tz div 1440 = (if tz < 0 then - 1 else 0)"
proof (cases "tz < 0")
  case True
  have "tz div 1440 = - 1"
    using assms True by (rule_tac int_div_pos_eq [where r = "tz + 1440"]) simp_all
  with True show ?thesis by simp
next
  case False
  have "tz div 1440 = 0"
    using assms False by (rule_tac int_div_pos_eq [where r = tz]) simp_all
  with False show ?thesis by simp
qed

lemma newDate_jan31: "newDate ''2027-01-31'' = Some (MakeDate 20849 0)"
  by code_simp

lemma jan31_east: "format_day (addMonths_local 20849 1) = ''2027-02-28''"
  by code_simp

lemma jan31_west: "format_day (addMonths_local 20848 1) = ''2027-02-28''"
  by code_simp

lemma jan31_plus_month:
  assumes "- 1440 < tz" "tz < 1440"
  shows "format_yyyy_MM_dd tz (addMonths tz (newDate ''2027-01-31'') 1) = Inr ''2027-02-28''"
proof -
  have "format_yyyy_MM_dd tz (addMonths tz (newDate ''2027-01-31'') 1)
      = Inr (format_day (addMonths_local (20849 + tz div 1440) 1))"
    by (simp only: newDate_jan31 format_addMonths [of 1, simplified] Day_LocalTime_midnight)
  also have "format_day (addMonths_local (20849 + tz div 1440) 1) = ''2027-02-28''"
    using jan31_east jan31_west by (simp add: offset_day [OF assms])
  finally show ?thesis .
qed

text \<open>
  Claim C9. For a row dated 2027-01-31, \<open>incrementMonth\<close> writes the date 2027-02-28
  into the row, in every time zone (of an offset of less than a day): the last day of
  February, not a date 30 or 31 days later.
\<close>

theorem incrementMonth_jan31:
  assumes "0 \<le> i" and "i < int (length (rows_s s))"
    and "date_f (row_objs st (rows_s s ! nat i)) = ''2027-01-31''"
    and "- 1440 < tz" and "tz < 1440"
  shows "incrementMonth tz i st s = Inr (set_date st (rows_s s ! nat i) ''2027-02-28'', s) \<and>
         date (rows (view (set_date st (rows_s s ! nat i) ''2027-02-28'') s) ! nat i) = ''2027-02-28''"
proof -
  have n: "nat i < length (rows_s s)"
    using assms(1,2) by simp
  have "incrementMonth tz i st s = Inr (set_date st (rows_s s ! nat i) ''2027-02-28'', s)"
    using assms(1,2,3) jan31_plus_month [OF assms(4,5)]
    by (simp add: incrementMonth_def row_at_def Let_def)
  moreover have "date (rows (view (set_date st (rows_s s ! nat i) ''2027-02-28'') s) ! nat i) = ''2027-02-28''"
    using n by (simp add: view_def view_row_def set_date_def)
  ultimately show ?thesis by simp
qed

theorem incrementMonth_jan31_witness:
  "incrementMonth (- 300) 0 jan_store sample_snapshot = Inr (set_date jan_store 0 ''2027-02-28'', sample_snapshot) \<and>
   date (rows (view (set_date jan_store 0 ''2027-02-28'') sample_snapshot) ! 0) = ''2027-02-28''"
  using incrementMonth_jan31 [of 0 sample_snapshot jan_store "- 300"]
  by (simp add: sample_snapshot_def jan_store_def)

lemma newDate_seed: "newDate ''2027-10-14'' = Some (MakeDate 21105 0)"
  by code_simp

lemma seed_east: "format_day 21105 = ''2027-10-14''"
  by code_simp

lemma seed_west: "format_day 21104 = ''2027-10-13''"
  by code_simp

lemma addRow_empty:
  assumes "rows d = []" and "- 1440 < tz" and "tz < 1440"
  shows "addRow tz d =
    Inr (d\<lparr>rows := [\<lparr>date = (if tz < 0 then ''2027-10-13'' else ''2027-10-14''),
                      values' = fromEntries (map (\<lambda>header. (header, Num 1)) (headers d)),
                      values_proto = ObjectPrototype,
                      hidden = Some False\<rparr>]\<rparr>)"
proof -
  have "format_yyyy_MM_dd tz (newDate ''2027-10-14'') = Inr (format_day (21105 + tz div 1440))"
    by (simp only: newDate_seed format_Some Day_LocalTime_midnight)
  also have "format_day (21105 + tz div 1440) = (if tz < 0 then ''2027-10-13'' else ''2027-10-14'')"
    using seed_east seed_west by (simp add: offset_day [OF assms(2,3)])
  finally show ?thesis
    using assms(1) by (simp add: addRow_def)
qed

text \<open>The cells of the seed row: every header is a name of the row, with the value 1.\<close>

lemma fromEntries_headers_aux:
  "map_of (foldl (\<lambda>ob (k, v). AList.update k v ob) ob0 (map (\<lambda>header. (header, c)) hs)) h
     = (if h \<in> set hs then Some c else map_of ob0 h)"
  by (induction hs arbitrary: ob0) (auto simp: update_conv')

lemma fromEntries_headers:
  "map_of (fromEntries (map (\<lambda>header. (header, Num 1)) hs)) h = (if h \<in> set hs then Some (Num 1) else None)"
  using fromEntries_headers_aux [of "[]" "Num 1" hs h] by (simp add: fromEntries_def)

text \<open>
  Claim C7. On a dataset with no rows \<open>addRow\<close> should give one row dated 2027-10-14.
  The seed is built with \<open>new Date("2027-10-14")\<close>, which is midnight UTC, and printed
  with \<open>format\<close>, which prints the local date: in a zone behind UTC that is the evening
  of the 13th (lemma \<open>addRow_empty\<close>). Evaluated for an offset of \<open>-300\<close> minutes
  (UTC-5):
\<close>

theorem addRow_empty_west_of_utc:
  "addRow (- 300) sample_empty =
     Inr \<lparr>headers = [''A'', ''B''],
          rows = [\<lparr>date = ''2027-10-13'', values' = [(''A'', Num 1), (''B'', Num 1)], values_proto = ObjectPrototype, hidden = Some False\<rparr>]\<rparr>"
  by (simp add: addRow_empty sample_empty_def fromEntries_def)

text \<open>On a dataset with rows, \<open>addRow\<close> appends one row, keeps the rows there are,
  copies the cells of the last row and sets \<open>hidden\<close>; the date is that of
  \<open>addMonths\<close> applied to the local day of the last row's date.\<close>

lemma addRow_nonempty:
  assumes "rows d \<noteq> []" and "newDate (date (last (rows d))) = Some t"
  shows "addRow tz d =
    Inr (d\<lparr>rows := rows d @
           [\<lparr>date = format_day (addMonths_local (Day (LocalTime tz t)) 3),
             values' = values' (last (rows d)),
             values_proto = ObjectPrototype,
             hidden = Some True\<rparr>]\<rparr>)"
  using assms format_addMonths [of 3 tz t]
  by (simp add: addRow_def Let_def last_conv_nth)

lemma oct14_west: "format_day (addMonths_local 21104 3) = ''2028-01-13''"
  by code_simp

lemma oct14_east: "format_day (addMonths_local 21105 3) = ''2028-01-14''"
  by code_simp

text \<open>
  Claim C8. On a dataset with rows \<open>addRow\<close> should append a row dated three calendar
  months after the last row. The last row's date is parsed as midnight UTC and the result
  is printed as a local date, as in C7: in a zone behind UTC the months are added to the
  day before, and the new row of a dataset ending on 2027-10-14 is dated 2028-01-13,
  not 2028-01-14 (\<open>oct14_east\<close> is the value in a zone at or ahead of UTC). The cells,
  the hidden flag and the rows before are as the claim says.
\<close>

theorem addRow_nonempty_west_of_utc:
  "addRow (- 300) sample =
     Inr \<lparr>headers = [''A''],
          rows = [sample_row, \<lparr>date = ''2028-01-13'', values' = [(''A'', Num 1)], values_proto = ObjectPrototype, hidden = Some True\<rparr>]\<rparr>"
proof -
  have "newDate (date (last (rows sample))) = Some (MakeDate 21105 0)"
    by (simp add: sample_def sample_row_def newDate_seed)
  from addRow_nonempty [OF _ this, of "- 300"] show ?thesis
    by (simp add: Day_LocalTime_midnight oct14_west sample_def sample_row_def)
qed

subsection \<open>The handlers that change a row in place\<close>

lemma oct14_plus_month_utc:
  "format_yyyy_MM_dd 0 (addMonths 0 (newDate ''2027-10-14'') 1) = Inr ''2027-11-14''"
  by code_simp

text \<open>
  Claim C6. A mutation should leave the previous snapshot as it was. The handlers
  \<open>toggleRowVisibility\<close>, \<open>updateValue\<close> and \<open>incrementMonth\<close> (and
  \<open>decrementMonth\<close>) copy the array of rows and then assign into the row object they
  share with the snapshot they started from. In \<open>sample_store\<close> the snapshot
  \<open>sample_snapshot\<close> denotes the dataset \<open>sample\<close>; after each handler has run, the
  same snapshot denotes a dataset with the edit in it.
\<close>

theorem in_place_handlers_change_previous_snapshot:
  "view sample_store sample_snapshot = sample \<and>
   (case toggleRowVisibility 0 sample_store sample_snapshot of
      Inl e \<Rightarrow> False
    | Inr (st', s') \<Rightarrow> view st' sample_snapshot = \<lparr>headers = [''A''], rows = [sample_row\<lparr>hidden := Some True\<rparr>]\<rparr>) \<and>
   (case updateValue (\<lambda>x. Num 5) 0 ''A'' ''5'' sample_store sample_snapshot of
      Inl e \<Rightarrow> False
    | Inr (st', s') \<Rightarrow> view st' sample_snapshot = \<lparr>headers = [''A''], rows = [sample_row\<lparr>values' := [(''A'', Num 5)]\<rparr>]\<rparr>) \<and>
   (case incrementMonth 0 0 sample_store sample_snapshot of
      Inl e \<Rightarrow> False
    | Inr (st', s') \<Rightarrow> view st' sample_snapshot = \<lparr>headers = [''A''], rows = [sample_row\<lparr>date := ''2027-11-14''\<rparr>]\<rparr>)"
  by (simp add: view_def view_row_def toggleRowVisibility_def updateValue_def incrementMonth_def
      row_at_def set_date_def Let_def put_prop_def oct14_plus_month_utc
      sample_store_def sample_snapshot_def sample_def sample_row_def)

text \<open>For any store and snapshot: after \<open>updateValue\<close> on a cell of a row of the
  snapshot with a number that is not the one the cell holds, and after \<open>toggleRowVisibility\<close>, the
  snapshot the handler started from no longer denotes what it did.\<close>

lemma updateValue_changes_previous:
  assumes "0 \<le> i" and "i < int (length (rows_s s))"
    and "header \<in> set (map fst (values' (rows (view st s) ! nat i)))"
    and "get_prop (values' (rows (view st s) ! nat i)) header \<noteq> parseFloat v"
  shows "\<exists>st'. updateValue parseFloat i header v st s = Inr (st', s) \<and> view st' s \<noteq> view st s"
proof -
  let ?vr = "values_ref (row_objs st (rows_s s ! nat i))"
  let ?st = "st\<lparr>values_objs := (values_objs st)(?vr := AList.update header (parseFloat v) (values_objs st ?vr)),
                values_protos := (values_protos st)(?vr := values_protos st ?vr)\<rparr>"
  have n: "nat i < length (rows_s s)" using assms by simp
  have own: "header \<in> set (map fst (values_objs st ?vr))"
    using assms(3) n by (simp add: view_def view_row_def)
  have 1: "updateValue parseFloat i header v st s = Inr (?st, s)"
    using assms(1,2) own by (simp add: updateValue_def row_at_def Let_def put_prop_def)
  have "get_prop (values' (rows (view ?st s) ! nat i)) header = parseFloat v"
    using n by (simp add: view_def view_row_def get_prop_def update_conv')
  with assms(4) have "view ?st s \<noteq> view st s" by auto
  with 1 show ?thesis by blast
qed

lemma toggle_changes_previous:
  assumes "0 \<le> i" and "i < int (length (rows_s s))"
  shows "\<exists>st'. toggleRowVisibility i st s = Inr (st', s) \<and> view st' s \<noteq> view st s"
proof -
  let ?a = "rows_s s ! nat i"
  let ?st = "st\<lparr>row_objs := (row_objs st)(?a := (row_objs st ?a)
                       \<lparr>hidden_f := Some (\<not> (case hidden_f (row_objs st ?a) of None \<Rightarrow> False | Some b \<Rightarrow> b))\<rparr>)\<rparr>"
  have n: "nat i < length (rows_s s)" using assms by simp
  have 1: "toggleRowVisibility i st s = Inr (?st, s)"
    using assms by (simp add: toggleRowVisibility_def row_at_def Let_def)
  have "hidden (rows (view ?st s) ! nat i) \<noteq> hidden (rows (view st s) ! nat i)"
    using n by (simp add: view_def view_row_def split: option.splits)
  then have "view ?st s \<noteq> view st s" by auto
  with 1 show ?thesis by blast
qed

subsection \<open>Saving and loading\<close>

lemma values_roundtrip:
  "list_all (\<lambda>(k, v). is_finite v) vs \<Longrightarrow>
   to_values (values_json vs) = vs \<and> values_issues path (Some (values_json vs)) = []"
proof (induction vs)
  case Nil
  then show ?case by (simp add: to_values_def values_json_def values_issues_def List.map_filter_simps)
next
  case (Cons a vs)
  obtain k v where a: "a = (k, v)" by (cases a)
  from Cons.prems a obtain x where v: "v = Num x" by (cases v) auto
  from Cons show ?case
    by (simp add: a v to_values_def values_json_def values_issues_def List.map_filter_simps)
qed

lemma row_roundtrip:
  assumes "list_all (\<lambda>(k, v). is_finite v) (values' r)" and "newDate (date r) \<noteq> None"
    and "values_proto r = ObjectPrototype"
  shows "to_row (row_json r) = r \<and> row_issues path (row_json r) = []"
  using assms values_roundtrip [OF assms(1)]
  by (cases "hidden r") (auto simp: to_row_def row_json_def row_issues_def)

lemma headers_issues_strings_aux:
  "concat (map (\<lambda>(i, x). case x of JStr s \<Rightarrow> [] | _ \<Rightarrow> [[''headers'', string_of_nat i]])
            (enumerate n (map JStr hs))) = []"
  by (induction hs arbitrary: n) auto

lemma rows_issues_aux:
  "list_all (\<lambda>r. list_all (\<lambda>(k, v). is_finite v) (values' r) \<and> newDate (date r) \<noteq> None \<and>
                  values_proto r = ObjectPrototype) rs \<Longrightarrow>
   concat (map (\<lambda>(i, r). row_issues [''rows'', string_of_nat i] r) (enumerate n (map row_json rs))) = []"
  by (induction rs arbitrary: n) (auto simp: row_roundtrip)

lemma rows_roundtrip:
  "list_all (\<lambda>r. list_all (\<lambda>(k, v). is_finite v) (values' r) \<and> newDate (date r) \<noteq> None \<and>
                  values_proto r = ObjectPrototype) rs \<Longrightarrow>
   map to_row (map row_json rs) = rs"
  by (induction rs) (auto simp: row_roundtrip)

lemma data_roundtrip:
  assumes "list_all (\<lambda>r. list_all (\<lambda>(k, v). is_finite v) (values' r) \<and> newDate (date r) \<noteq> None \<and>
                  values_proto r = ObjectPrototype) (rows d)"
  shows "safeParse (data_json d) = Inr d"
proof -
  have h: "map (\<lambda>x. case x of JStr s \<Rightarrow> s | _ \<Rightarrow> []) (map JStr (headers d)) = headers d"
    by (induction "headers d") (auto simp: comp_def)
  have "data_issues (data_json d) = []"
    using rows_issues_aux [OF assms, of 0]
    by (simp add: data_issues_def data_json_def headers_issues_def headers_issues_strings_aux)
  moreover have "to_data (data_json d) = d"
    using rows_roundtrip [OF assms] h by (simp add: to_data_def data_json_def)
  ultimately show ?thesis by (simp add: safeParse_def)
qed


lemma live_cell_finite: "live_cell v \<Longrightarrow> \<not> isNaN v \<Longrightarrow> is_finite v"
  by (cases v) auto

lemma prepared_rows_ok:
  assumes "valid_dataset d"
  shows "list_all (\<lambda>r. list_all (\<lambda>(k, v). is_finite v) (values' r) \<and> newDate (date r) \<noteq> None \<and>
                  values_proto r = ObjectPrototype)
           (rows (prepareData d))"
proof -
  have w: "wf_data d" using assms by (simp add: valid_dataset_def)
  have "list_all (\<lambda>r. newDate (date r) \<noteq> None \<and> list_all (\<lambda>(k, v). live_cell v) (values' r)) (rows d)"
    using assms by (simp add: valid_dataset_def)
  then show ?thesis
    by (fastforce simp: prepareData_eq [OF w] list_all_iff dest: live_cell_finite)
qed

text \<open>
  Claim C4. For every valid dataset \<open>d\<close>, saving it to a writable path \<open>p\<close> and loading
  that path gives the dataset \<open>applyLoadedData (prepareData d)\<close>: the prepared snapshot
  is serialised, parsed, accepted by the schema and normalised, whatever dataset \<open>cur\<close>
  the editor holds when the file is loaded.
\<close>

theorem save_load_roundtrip:
  assumes "valid_dataset d" and "p \<noteq> []" and "writable fs p"
  shows "case saveDataToFile (Some p) d fs of
           Inl e \<Rightarrow> False
         | Inr fs' \<Rightarrow> loadDataFromFile (Some p) fs' cur = Inr (applyLoadedData (prepareData d))"
  using assms(2,3) data_roundtrip [OF prepared_rows_ok [OF assms(1)]]
  by (simp add: saveDataToFile_def writeTextFile_def loadDataFromFile_def readTextFile_def
      parseData_def JSON_parse_def JSON_stringify_def)

lemma valid_sample2: "valid_dataset sample2"
  by code_simp

theorem save_load_roundtrip_witness:
  "valid_dataset sample2 \<and> writable sample_fs ''out.json'' \<and>
   (case saveDataToFile (Some ''out.json'') sample2 sample_fs of
      Inl e \<Rightarrow> False
    | Inr fs' \<Rightarrow>
        loadDataFromFile (Some ''out.json'') fs' sample = Inr (applyLoadedData (prepareData sample2))) \<and>
   applyLoadedData (prepareData sample2) =
     \<lparr>headers = [''A'', ''B''],
      rows = [\<lparr>date = ''2027-10-14'', values' = [(''A'', Num 1), (''B'', Num 0)], values_proto = ObjectPrototype, hidden = Some False\<rparr>,
              \<lparr>date = ''2028-01-14'', values' = [(''A'', Num 2), (''B'', Num 3)], values_proto = ObjectPrototype, hidden = Some True\<rparr>]\<rparr>"
proof -
  have w: "writable sample_fs ''out.json''"
    by (simp add: sample_fs_def)
  have e: "applyLoadedData (prepareData sample2) =
     \<lparr>headers = [''A'', ''B''],
      rows = [\<lparr>date = ''2027-10-14'', values' = [(''A'', Num 1), (''B'', Num 0)], values_proto = ObjectPrototype, hidden = Some False\<rparr>,
              \<lparr>date = ''2028-01-14'', values' = [(''A'', Num 2), (''B'', Num 3)], values_proto = ObjectPrototype, hidden = Some True\<rparr>]\<rparr>"
    by (simp add: applyLoadedData_def prepareData_def sample2_def fromEntries_def)
  have n: "''out.json'' \<noteq> []"
    by simp
  from save_load_roundtrip [OF valid_sample2 n w, of sample] valid_sample2 w e show ?thesis
    by blast
qed

end
